theory Spec2Isabelle
  imports Complex_Main
begin

section \<open>SmartPrint-3D: the split-and-key geometry kernel\<close>

text \<open>
  A shallow embedding of \<^verbatim>\<open>BACKEND DEV/smart_splitter.py\<close> (class \<^verbatim>\<open>SmartSplitter\<close>) and of the
  two request handlers of \<^verbatim>\<open>BACKEND DEV/main.py\<close> that call it.

  Python floats are read as real numbers: rounding, NaN and infinities are not modelled.
  The calls into trimesh, shapely and numpy whose code is not part of the repository are
  parameters of the model (two records of operations: one for trimesh, with numpy's product
  of a transform and a point, and one for shapely); each operation may raise, so it
  returns a value of \<open>py_exception + 'a\<close>. The exceptions are those that \<^verbatim>\<open>except Exception\<close>
  catches.
\<close>

subsection \<open>Data\<close>

type_synonym vec3 = "real \<times> real \<times> real"

type_synonym point2 = "real \<times> real"

type_synonym face = "nat \<times> nat \<times> nat"

text \<open>A triangle mesh as the code reads it: \<^verbatim>\<open>mesh.vertices\<close> and \<^verbatim>\<open>mesh.faces\<close>.\<close>

record trimesh =
  vertices :: "vec3 list"
  faces :: "face list"

datatype py_exception =
  IndexError | ValueError | TypeError | ZeroDivisionError | UnboundLocalError | LibraryError nat

text \<open>Sequencing of calls that may raise: the first exception ends the computation.\<close>

definition and_then :: "py_exception + 'a \<Rightarrow> ('a \<Rightarrow> py_exception + 'b) \<Rightarrow> py_exception + 'b" where
  "and_then r f = (case r of Inl e \<Rightarrow> Inl e | Inr x \<Rightarrow> f x)"

fun vsub :: "vec3 \<Rightarrow> vec3 \<Rightarrow> vec3" where
  "vsub (a, b, c) (x, y, z) = (a - x, b - y, c - z)"

fun vneg :: "vec3 \<Rightarrow> vec3" where
  "vneg (x, y, z) = (- x, - y, - z)"

fun vscale :: "real \<Rightarrow> vec3 \<Rightarrow> vec3" where
  "vscale k (x, y, z) = (k * x, k * y, k * z)"

fun dot3 :: "vec3 \<Rightarrow> vec3 \<Rightarrow> real" where
  "dot3 (a, b, c) (x, y, z) = a * x + b * y + c * z"


text \<open>Reading and writing coordinate \<open>i\<close> of a 3-vector (\<open>i\<close> is 0, 1 or 2).\<close>

fun coord :: "vec3 \<Rightarrow> nat \<Rightarrow> real" where
  "coord (x, y, z) i = (if i = 0 then x else if i = 1 then y else z)"

fun set_coord :: "vec3 \<Rightarrow> nat \<Rightarrow> real \<Rightarrow> vec3" where
  "set_coord (x, y, z) i v = (if i = 0 then (v, y, z) else if i = 1 then (x, v, z) else (x, y, v))"

subsection \<open>\<^verbatim>\<open>_create_chamfered_pin\<close>: the profile\<close>

text \<open>
  Lines 376--382: the height the chamfers need, and the rescaling when they do not fit.
\<close>

definition needed_height :: "real \<Rightarrow> bool \<Rightarrow> bool \<Rightarrow> real" where
  "needed_height chamfer taper_top flare_bottom =
     (let n0 = 0;
          n1 = (if taper_top then n0 + chamfer else n0);
          n2 = (if flare_bottom then n1 + chamfer else n1)
      in n2)"

definition fit_chamfer :: "real \<Rightarrow> real \<Rightarrow> bool \<Rightarrow> bool \<Rightarrow> real" where
  "fit_chamfer height chamfer taper_top flare_bottom =
     (if needed_height chamfer taper_top flare_bottom \<ge> height then height / 3.0 else chamfer)"

text \<open>Lines 384--399: the profile, a list of (z, r) pairs, bottom first.\<close>

definition profile :: "real \<Rightarrow> real \<Rightarrow> real \<Rightarrow> bool \<Rightarrow> bool \<Rightarrow> (real \<times> real) list" where
  "profile radius height chamfer0 taper_top flare_bottom =
     (let chamfer = fit_chamfer height chamfer0 taper_top flare_bottom;
          bottom = (if flare_bottom then [(0, radius + chamfer), (chamfer, radius)]
                    else [(0, radius)]);
          top = (if taper_top then [(height - chamfer, radius), (height, radius - chamfer)]
                 else [(height, radius)])
      in bottom @ top)"

text \<open>
  The profile in the words of the specification (section 4.E), for comparison with the
  one above: the flags count as 0 or 1 in the fit test.
\<close>

definition spec_chamfer :: "real \<Rightarrow> real \<Rightarrow> bool \<Rightarrow> bool \<Rightarrow> real" where
  "spec_chamfer h c taper_top flare_bottom =
     (if (of_bool taper_top + of_bool flare_bottom) * c \<ge> h then h / 3 else c)"

definition spec_profile :: "real \<Rightarrow> real \<Rightarrow> real \<Rightarrow> bool \<Rightarrow> bool \<Rightarrow> (real \<times> real) list" where
  "spec_profile r h c0 taper_top flare_bottom =
     (let c = spec_chamfer h c0 taper_top flare_bottom
      in (if flare_bottom then [(0, r + c), (c, r)] else [(0, r)])
         @ (if taper_top then [(h - c, r), (h, r - c)] else [(h, r)]))"

subsection \<open>\<^verbatim>\<open>_create_chamfered_pin\<close>: the mesh of revolution\<close>

definition sections :: nat where
  "sections = 32"

text \<open>\<^verbatim>\<open>np.linspace(0, 2*np.pi, sections, endpoint=False)\<close>: entry \<open>j\<close>.\<close>

definition theta :: "nat \<Rightarrow> real" where
  "theta j = real j * (2 * pi / real sections)"

definition ring_v :: "real \<times> real \<Rightarrow> vec3 list" where
  "ring_v zr = (case zr of (z, r) \<Rightarrow>
     map (\<lambda>j. (r * cos (theta j), r * sin (theta j), z)) [0..<sections])"

text \<open>Lines 421--440: two triangles for each quad between ring \<open>i\<close> and ring \<open>i + 1\<close>.\<close>

definition quad_faces :: "nat \<Rightarrow> nat \<Rightarrow> face list" where
  "quad_faces i j =
     (let base_i = i * sections;
          base_next = (i + 1) * sections;
          j_next = (j + 1) mod sections
      in [(base_i + j, base_i + j_next, base_next + j),
          (base_next + j, base_i + j_next, base_next + j_next)])"

definition side_faces :: "nat \<Rightarrow> face list" where
  "side_faces num_rings =
     concat (map (\<lambda>i. concat (map (\<lambda>j. quad_faces i j) [0..<sections])) [0..<num_rings - 1])"

text \<open>Lines 442--453: the bottom fan around the centre vertex appended after the rings.\<close>

definition bottom_faces :: "nat \<Rightarrow> face list" where
  "bottom_faces bottom_center_idx =
     map (\<lambda>j. (bottom_center_idx, (j + 1) mod sections, j)) [0..<sections]"

text \<open>Lines 455--465: the top fan around the centre vertex appended last.\<close>

definition top_faces :: "nat \<Rightarrow> nat \<Rightarrow> face list" where
  "top_faces top_center_idx base_top =
     map (\<lambda>j. (top_center_idx, base_top + j, base_top + (j + 1) mod sections)) [0..<sections]"

text \<open>
  The vertex and face arrays handed to \<^verbatim>\<open>trimesh.Trimesh\<close> at line 467, for a given profile.
  The profile has at least two points, so \<^verbatim>\<open>profile[0]\<close> and \<^verbatim>\<open>profile[-1]\<close> exist.
\<close>

definition revolve :: "(real \<times> real) list \<Rightarrow> trimesh" where
  "revolve prof =
     (let ring_vertices = concat (map ring_v prof);
          num_rings = length prof;
          vertices1 = ring_vertices @ [(0, 0, fst (hd prof))];
          bottom_center_idx = length vertices1 - 1;
          vertices2 = vertices1 @ [(0, 0, fst (last prof))];
          top_center_idx = length vertices2 - 1;
          base_top = (num_rings - 1) * sections
      in \<lparr> vertices = vertices2,
           faces = side_faces num_rings @ bottom_faces bottom_center_idx
                     @ top_faces top_center_idx base_top \<rparr>)"

definition create_chamfered_pin :: "real \<Rightarrow> real \<Rightarrow> real \<Rightarrow> bool \<Rightarrow> bool \<Rightarrow> trimesh" where
  "create_chamfered_pin radius height chamfer taper_top flare_bottom =
     revolve (profile radius height chamfer taper_top flare_bottom)"

subsection \<open>Smart sizing (\<^verbatim>\<open>perform_split_and_key\<close>, lines 149--157 and 172--188)\<close>

definition pin_radius_of :: "real \<Rightarrow> real" where
  "pin_radius_of max_radius = max 2.0 (min (max_radius * 0.6) 20.0)"

definition pin_height_of :: "real \<Rightarrow> real" where
  "pin_height_of pin_radius = max 10.0 (min (pin_radius * 3.0) 30.0)"

definition tolerance :: real where
  "tolerance = 0.4"

definition pin_chamfer_of :: "real \<Rightarrow> real" where
  "pin_chamfer_of pin_radius = (let pin_diameter = 2 * pin_radius in 0.1 * pin_diameter)"

definition hole_radius_of :: "real \<Rightarrow> real" where
  "hole_radius_of pin_radius = pin_radius + (tolerance / 2.0)"

definition hole_height_of :: "real \<Rightarrow> real" where
  "hole_height_of pin_height = pin_height"

definition hole_chamfer_of :: "real \<Rightarrow> real" where
  "hole_chamfer_of hole_radius = (let hole_diameter = 2 * hole_radius in 0.1 * hole_diameter)"


subsection \<open>The libraries\<close>

text \<open>
  What a boolean operation of trimesh returns: one mesh, or a scene of several.
\<close>

datatype boolean_result = Mesh trimesh | Scene "trimesh list"

text \<open>
  The operations of trimesh the code calls; \<open>'p\<close> is the type of shapely geometries,
  \<open>'t\<close> the type of 4x4 homogeneous transforms. \<open>np_dot\<close> is \<^verbatim>\<open>np.dot\<close> of a transform
  and a homogeneous point. \<open>section_visualization\<close> stands for lines 54--99 of
  \<^verbatim>\<open>suggest_split\<close>, which build the decorative section mesh from \<^verbatim>\<open>mesh.section\<close> and
  do not change \<^verbatim>\<open>origin\<close> or \<^verbatim>\<open>normal\<close>.
\<close>

record ('p, 't) trimesh_lib =
  mesh_bounds :: "trimesh \<Rightarrow> (vec3 \<times> vec3) option"
  mesh_extents :: "trimesh \<Rightarrow> vec3 option"
  mesh_centroid :: "trimesh \<Rightarrow> vec3"
  section_visualization :: "trimesh \<Rightarrow> vec3 \<Rightarrow> vec3 \<Rightarrow> py_exception + trimesh option"
  slice_mesh_plane :: "trimesh \<Rightarrow> vec3 \<Rightarrow> vec3 \<Rightarrow> py_exception + trimesh"
  submesh :: "trimesh \<Rightarrow> nat list \<Rightarrow> py_exception + trimesh"
  merge_vertices :: "trimesh \<Rightarrow> py_exception + trimesh"
  apply_transform :: "trimesh \<Rightarrow> 't \<Rightarrow> py_exception + trimesh"
  apply_translation :: "trimesh \<Rightarrow> vec3 \<Rightarrow> py_exception + trimesh"
  concatenate :: "trimesh list \<Rightarrow> py_exception + trimesh"
  boolean_union :: "trimesh list \<Rightarrow> py_exception + boolean_result"
  boolean_difference :: "trimesh list \<Rightarrow> py_exception + boolean_result"
  projected :: "trimesh \<Rightarrow> vec3 \<Rightarrow> vec3 \<Rightarrow> py_exception + 'p option"
  translation_matrix :: "vec3 \<Rightarrow> py_exception + 't"
  align_vectors :: "vec3 \<Rightarrow> vec3 \<Rightarrow> py_exception + 't"
  concatenate_matrices :: "'t \<Rightarrow> 't \<Rightarrow> py_exception + 't"
  inverse_matrix :: "'t \<Rightarrow> py_exception + 't"
  np_dot :: "'t \<Rightarrow> real \<times> real \<times> real \<times> real \<Rightarrow> py_exception + real \<times> real \<times> real \<times> real"

text \<open>
  The operations of shapely the code calls on the cap polygon. \<open>min_rect_xy\<close> is
  \<^verbatim>\<open>minimum_rotated_rectangle.exterior.coords.xy\<close>; \<open>boundary_distance pt poly\<close> is
  \<^verbatim>\<open>pt.distance(poly.boundary)\<close>; \<open>buffer0\<close> is \<^verbatim>\<open>buffer(0)\<close>.
\<close>

record 'p shapely_lib =
  is_empty :: "'p \<Rightarrow> bool"
  is_multipolygon :: "'p \<Rightarrow> bool"
  unary_union :: "'p \<Rightarrow> py_exception + 'p"
  is_valid :: "'p \<Rightarrow> bool"
  buffer0 :: "'p \<Rightarrow> py_exception + 'p"
  min_rect_xy :: "'p \<Rightarrow> py_exception + real list \<times> real list"
  poly_centroid :: "'p \<Rightarrow> py_exception + point2"
  contains :: "'p \<Rightarrow> point2 \<Rightarrow> py_exception + bool"
  polylabel :: "'p \<Rightarrow> real \<Rightarrow> py_exception + point2"
  boundary_distance :: "point2 \<Rightarrow> 'p \<Rightarrow> py_exception + real"

subsection \<open>Python built-ins\<close>

definition py_nth :: "'a list \<Rightarrow> nat \<Rightarrow> py_exception + 'a" where
  "py_nth xs i = (if i < length xs then Inr (xs ! i) else Inl IndexError)"

definition py_max :: "real list \<Rightarrow> py_exception + real" where
  "py_max xs = (case xs of [] \<Rightarrow> Inl ValueError | e # es \<Rightarrow> Inr (foldl max e es))"

definition py_min :: "real list \<Rightarrow> py_exception + real" where
  "py_min xs = (case xs of [] \<Rightarrow> Inl ValueError | e # es \<Rightarrow> Inr (foldl min e es))"

definition py_truediv :: "real \<Rightarrow> real \<Rightarrow> py_exception + real" where
  "py_truediv a b = (if b = 0 then Inl ZeroDivisionError else Inr (a / b))"

text \<open>\<^verbatim>\<open>Point(a).distance(Point(b))\<close> and \<^verbatim>\<open>LineString([s, e]).interpolate(f, normalized=True)\<close>.\<close>

fun point_distance :: "point2 \<Rightarrow> point2 \<Rightarrow> real" where
  "point_distance (x1, y1) (x2, y2) = sqrt ((x1 - x2)\<^sup>2 + (y1 - y2)\<^sup>2)"

fun interpolate :: "point2 \<Rightarrow> point2 \<Rightarrow> real \<Rightarrow> point2" where
  "interpolate (sx, sy) (ex, ey) f = (sx + f * (ex - sx), sy + f * (ey - sy))"

fun midpoint2 :: "point2 \<Rightarrow> point2 \<Rightarrow> point2" where
  "midpoint2 (ax, ay) (bx, by) = ((ax + bx) / 2, (ay + by) / 2)"

subsection \<open>\<^verbatim>\<open>suggest_split\<close>\<close>

text \<open>Python indexing into a sequence of length 3: negative indices count from the end.\<close>

definition py_index3 :: "int \<Rightarrow> nat option" where
  "py_index3 i = (if 0 \<le> i \<and> i < 3 then Some (nat i)
                  else if - 3 \<le> i \<and> i < 0 then Some (nat (i + 3)) else None)"

text \<open>\<^verbatim>\<open>np.argmax\<close> on three entries: the first index of the largest entry.\<close>

fun argmax3 :: "vec3 \<Rightarrow> nat" where
  "argmax3 (x, y, z) = (if x \<ge> y \<and> x \<ge> z then 0 else if y \<ge> z then 1 else 2)"

text \<open>
  Lines 33--50 and 101. \<^verbatim>\<open>mesh.bounds\<close> and \<^verbatim>\<open>mesh.extents\<close> are \<^verbatim>\<open>None\<close> for a mesh without
  vertices, and subscripting them then raises.
\<close>

definition suggest_split ::
  "('p, 't) trimesh_lib \<Rightarrow> trimesh \<Rightarrow> int option \<Rightarrow> py_exception + vec3 \<times> vec3 \<times> trimesh option" where
  "suggest_split tm mesh axis_idx0 =
     (case (mesh_bounds tm mesh, mesh_extents tm mesh) of
        (Some bounds, Some extents) \<Rightarrow>
          let axis_idx1 = (case axis_idx0 of None \<Rightarrow> Some (argmax3 extents) | Some k \<Rightarrow> py_index3 k)
          in (case axis_idx1 of
                None \<Rightarrow> Inl IndexError
              | Some axis_idx \<Rightarrow>
                  let mid_point = (coord (fst bounds) axis_idx + coord (snd bounds) axis_idx) / 2.0;
                      origin = set_coord (mesh_centroid tm mesh) axis_idx mid_point;
                      normal = set_coord (0, 0, 0) axis_idx 1.0
                  in and_then (section_visualization tm mesh origin normal)
                       (\<lambda>section_mesh. Inr (origin, normal, section_mesh)))
      | _ \<Rightarrow> Inl TypeError)"

text \<open>\<^verbatim>\<open>str.lower\<close> on ASCII text.\<close>

definition lower_char :: "char \<Rightarrow> char" where
  "lower_char c =
     (case map_of (zip ''ABCDEFGHIJKLMNOPQRSTUVWXYZ'' ''abcdefghijklmnopqrstuvwxyz'') c of
        Some d \<Rightarrow> d
      | None \<Rightarrow> c)"

definition str_lower :: "string \<Rightarrow> string" where
  "str_lower s = map lower_char s"

definition axis_map :: "string \<rightharpoonup> int" where
  "axis_map = [''x'' \<mapsto> 0, ''y'' \<mapsto> 1, ''z'' \<mapsto> 2]"

text \<open>\<^verbatim>\<open>main.py\<close>, lines 74--79: the axis hint of the request, then the call.\<close>

definition request_axis_idx :: "string option \<Rightarrow> int option" where
  "request_axis_idx axis =
     (case axis of None \<Rightarrow> None
      | Some a \<Rightarrow> if a \<noteq> [] then axis_map (str_lower a) else None)"

definition suggest_split_request ::
  "('p, 't) trimesh_lib \<Rightarrow> trimesh \<Rightarrow> string option \<Rightarrow> py_exception + vec3 \<times> vec3 \<times> trimesh option" where
  "suggest_split_request tm mesh axis = suggest_split tm mesh (request_axis_idx axis)"

text \<open>The positive unit vector of axis \<open>i\<close>, as the specification names it.\<close>

definition unit_axis :: "nat \<Rightarrow> vec3" where
  "unit_axis i = (if i = 0 then (1, 0, 0) else if i = 1 then (0, 1, 0) else (0, 0, 1))"

subsection \<open>\<^verbatim>\<open>_analyze_cap_surface\<close>\<close>

text \<open>The dictionary the analysis returns: \<^verbatim>\<open>'centers'\<close> and \<^verbatim>\<open>'max_radius'\<close>.\<close>

record cap_data =
  cap_centers :: "vec3 list"
  cap_max_radius :: real

definition z_axis :: vec3 where
  "z_axis = (0, 0, 1)"

text \<open>Step 1 (lines 237--241): the faces whose three vertices are on the cut plane.\<close>

definition on_plane_mask :: "vec3 list \<Rightarrow> vec3 \<Rightarrow> vec3 \<Rightarrow> bool list" where
  "on_plane_mask verts plane_origin plane_normal =
     (let vectors = map (\<lambda>v. vsub v plane_origin) verts;
          distances = map (\<lambda>v. dot3 v plane_normal) vectors
      in map (\<lambda>d. \<bar>d\<bar> < 0.0001) distances)"

definition face_mask :: "bool list \<Rightarrow> face list \<Rightarrow> py_exception + bool list" where
  "face_mask on_plane fs =
     (if list_all (\<lambda>(a, b, c). a < length on_plane \<and> b < length on_plane \<and> c < length on_plane) fs
      then Inr (map (\<lambda>(a, b, c). on_plane ! a \<and> on_plane ! b \<and> on_plane ! c) fs)
      else Inl IndexError)"

definition np_where :: "bool list \<Rightarrow> nat list" where
  "np_where flags = filter (\<lambda>i. flags ! i) [0..<length flags]"

definition cap_faces_indices :: "trimesh \<Rightarrow> vec3 \<Rightarrow> vec3 \<Rightarrow> py_exception + nat list" where
  "cap_faces_indices mesh plane_origin plane_normal =
     and_then (face_mask (on_plane_mask (vertices mesh) plane_origin plane_normal) (faces mesh))
       (\<lambda>fm. Inr (np_where fm))"

text \<open>
  Step 3 (lines 250--259): the plane-local frame; the value kept is \<^verbatim>\<open>to_3d\<close>. The copy
  \<^verbatim>\<open>cap_2d\<close> is built and dropped, but building it may raise.
\<close>

definition plane_frame ::
  "('p, 't) trimesh_lib \<Rightarrow> trimesh \<Rightarrow> vec3 \<Rightarrow> vec3 \<Rightarrow> py_exception + 't" where
  "plane_frame tm cap_mesh plane_origin plane_normal =
     and_then (translation_matrix tm (vneg plane_origin)) (\<lambda>T_trans.
     and_then (align_vectors tm plane_normal z_axis) (\<lambda>T_rot.
     and_then (concatenate_matrices tm T_rot T_trans) (\<lambda>to_2d.
     and_then (inverse_matrix tm to_2d) (\<lambda>to_3d.
     and_then (merge_vertices tm cap_mesh) (\<lambda>cap_2d.
     and_then (apply_transform tm cap_2d to_2d) (\<lambda>cap_2d'.
     Inr to_3d))))))"

text \<open>Step 4 (lines 270--276): one valid polygon.\<close>

definition main_polygon :: "'p shapely_lib \<Rightarrow> 'p \<Rightarrow> py_exception + 'p" where
  "main_polygon sh poly_or_multi =
     and_then (if is_multipolygon sh poly_or_multi then unary_union sh poly_or_multi
               else Inr poly_or_multi) (\<lambda>main_poly.
     if \<not> is_valid sh main_poly then buffer0 sh main_poly else Inr main_poly)"

text \<open>Step 5 (lines 282--301): edge lengths of the rectangle, aspect ratio, pin count.\<close>

definition edge_lengths :: "real list \<Rightarrow> real list \<Rightarrow> py_exception + real list" where
  "edge_lengths x y =
     (if length x < 5 \<or> length y < 5 then Inl IndexError
      else Inr (map (\<lambda>i. point_distance (x ! i, y ! i) (x ! (i + 1), y ! (i + 1))) [0..<4]))"

definition clamp_width :: "real \<Rightarrow> real" where
  "clamp_width width = (if width < 0.1 then 0.1 else width)"

definition aspect_ratio_of :: "real list \<Rightarrow> py_exception + real" where
  "aspect_ratio_of lengths =
     and_then (py_max lengths) (\<lambda>len.
     and_then (py_min lengths) (\<lambda>width0.
     let width = clamp_width width0
     in py_truediv len width))"

definition num_pins_of :: "real \<Rightarrow> nat" where
  "num_pins_of aspect_ratio =
     (if aspect_ratio > 10.0 then 3 else if aspect_ratio > 3.0 then 2 else 1)"

text \<open>Lines 303--308: one pin, at the centroid or at the pole of inaccessibility.\<close>

definition single_center :: "'p shapely_lib \<Rightarrow> 'p \<Rightarrow> py_exception + point2 list" where
  "single_center sh main_poly =
     and_then (poly_centroid sh main_poly) (\<lambda>pt.
     and_then (contains sh main_poly pt) (\<lambda>inside.
     if \<not> inside then and_then (polylabel sh main_poly 0.1) (\<lambda>pt'. Inr [pt'])
     else Inr [pt]))"

definition rect_point :: "real list \<Rightarrow> real list \<Rightarrow> nat \<Rightarrow> py_exception + point2" where
  "rect_point x y i = and_then (py_nth x i) (\<lambda>a. and_then (py_nth y i) (\<lambda>b. Inr (a, b)))"

text \<open>Reading a local variable that no statement on the path taken has assigned.\<close>

definition unbound_local :: "py_exception + 'a" where
  "unbound_local = Inl UnboundLocalError"

text \<open>
  Lines 313--331: the centerline \<open>(start, end)\<close> of the rectangle. \<^verbatim>\<open>p3\<close> is assigned at line
  325, inside the branch \<^verbatim>\<open>dist01 >= dist12\<close> only; the other branch reads it at line 331.
\<close>

definition centerline :: "real list \<Rightarrow> real list \<Rightarrow> py_exception + point2 \<times> point2" where
  "centerline x y =
     and_then (rect_point x y 0) (\<lambda>p0.
     and_then (rect_point x y 1) (\<lambda>p1.
     and_then (rect_point x y 2) (\<lambda>p2.
     let dist01 = point_distance p0 p1;
         dist12 = point_distance p1 p2
     in if dist01 \<ge> dist12
        then and_then (rect_point x y 3) (\<lambda>p3.
             Inr (midpoint2 p0 p3, midpoint2 p1 p2))
        else (let start = midpoint2 p0 p1
              in and_then unbound_local (\<lambda>p3.
                 Inr (start, midpoint2 p3 p2))))))"

text \<open>Lines 336--347: the loop over \<^verbatim>\<open>range(num_pins)\<close>, here over the list of its indices.\<close>

fun place_pins ::
  "'p shapely_lib \<Rightarrow> 'p \<Rightarrow> point2 \<Rightarrow> point2 \<Rightarrow> nat \<Rightarrow> nat list \<Rightarrow> py_exception + point2 list" where
  "place_pins sh main_poly start_pt end_pt num_pins [] = Inr []"
| "place_pins sh main_poly start_pt end_pt num_pins (i # rest) =
     (let fraction = (2 * real i + 1) / (2 * real num_pins);
          pt = interpolate start_pt end_pt fraction
      in and_then (contains sh main_poly pt) (\<lambda>inside.
         and_then (place_pins sh main_poly start_pt end_pt num_pins rest) (\<lambda>later.
         Inr (if inside then pt # later else later))))"

text \<open>Lines 303--351: the 2D centres, with the fallback when none was kept.\<close>

definition centers_2d_of ::
  "'p shapely_lib \<Rightarrow> 'p \<Rightarrow> real list \<Rightarrow> real list \<Rightarrow> nat \<Rightarrow> py_exception + point2 list" where
  "centers_2d_of sh main_poly x y num_pins =
     and_then (if num_pins = 1 then single_center sh main_poly
               else and_then (centerline x y) (\<lambda>(start_pt, end_pt).
                    place_pins sh main_poly start_pt end_pt num_pins [0..<num_pins]))
       (\<lambda>centers_2d.
          if centers_2d = [] then and_then (polylabel sh main_poly 0.1) (\<lambda>pt. Inr [pt])
          else Inr centers_2d)"

text \<open>Steps 6 and 7 (lines 355--367): the safe radius and the centres in world space.\<close>

definition back_project :: "('p, 't) trimesh_lib \<Rightarrow> 't \<Rightarrow> point2 \<Rightarrow> py_exception + vec3" where
  "back_project tm to_3d c2d =
     (let center_local = (fst c2d, snd c2d, 0, 1)
      in and_then (np_dot tm to_3d center_local) (\<lambda>(a, b, c, d). Inr (a, b, c)))"

fun centers_3d_of :: "('p, 't) trimesh_lib \<Rightarrow> 't \<Rightarrow> point2 list \<Rightarrow> py_exception + vec3 list" where
  "centers_3d_of tm to_3d [] = Inr []"
| "centers_3d_of tm to_3d (c2d # rest) =
     and_then (back_project tm to_3d c2d) (\<lambda>center_global.
     and_then (centers_3d_of tm to_3d rest) (\<lambda>later.
     Inr (center_global # later)))"

definition cap_result ::
  "('p, 't) trimesh_lib \<Rightarrow> 'p shapely_lib \<Rightarrow> 'p \<Rightarrow> 't \<Rightarrow> point2 list \<Rightarrow> py_exception + cap_data" where
  "cap_result tm sh main_poly to_3d centers_2d =
     and_then (py_nth centers_2d 0) (\<lambda>first.
     and_then (boundary_distance sh first main_poly) (\<lambda>radius.
     and_then (centers_3d_of tm to_3d centers_2d) (\<lambda>centers_3d.
     Inr \<lparr> cap_centers = centers_3d, cap_max_radius = radius \<rparr>)))"

text \<open>Steps 5 to 7 together: the planner, from the polygon to the returned dictionary.\<close>

definition plan_pins ::
  "('p, 't) trimesh_lib \<Rightarrow> 'p shapely_lib \<Rightarrow> 'p \<Rightarrow> 't \<Rightarrow> py_exception + cap_data" where
  "plan_pins tm sh main_poly to_3d =
     and_then (min_rect_xy sh main_poly) (\<lambda>(x, y).
     and_then (edge_lengths x y) (\<lambda>lengths.
     and_then (aspect_ratio_of lengths) (\<lambda>aspect_ratio.
     let num_pins = num_pins_of aspect_ratio
     in and_then (centers_2d_of sh main_poly x y num_pins) (\<lambda>centers_2d.
        cap_result tm sh main_poly to_3d centers_2d))))"

text \<open>The body of the \<^verbatim>\<open>try\<close> block, lines 236--367.\<close>

definition analyze_cap_surface_body ::
  "('p, 't) trimesh_lib \<Rightarrow> 'p shapely_lib \<Rightarrow> trimesh \<Rightarrow> vec3 \<Rightarrow> vec3
     \<Rightarrow> py_exception + cap_data option" where
  "analyze_cap_surface_body tm sh mesh plane_origin plane_normal =
     and_then (cap_faces_indices mesh plane_origin plane_normal) (\<lambda>indices.
     if length indices = 0 then Inr None
     else
       and_then (submesh tm mesh indices) (\<lambda>cap_mesh.
       and_then (plane_frame tm cap_mesh plane_origin plane_normal) (\<lambda>to_3d.
       and_then (projected tm cap_mesh plane_normal plane_origin) (\<lambda>poly_or_multi.
       case poly_or_multi of
         None \<Rightarrow> Inr None
       | Some pm \<Rightarrow>
           if is_empty sh pm then Inr None
           else
             and_then (main_polygon sh pm) (\<lambda>main_poly.
             and_then (plan_pins tm sh main_poly to_3d) (\<lambda>result.
             Inr (Some result)))))))"

text \<open>Lines 235 and 369--373: \<^verbatim>\<open>except Exception\<close> turns every exception of the body into \<^verbatim>\<open>None\<close>.\<close>

definition analyze_cap_surface ::
  "('p, 't) trimesh_lib \<Rightarrow> 'p shapely_lib \<Rightarrow> trimesh \<Rightarrow> vec3 \<Rightarrow> vec3 \<Rightarrow> cap_data option" where
  "analyze_cap_surface tm sh mesh plane_origin plane_normal =
     (case analyze_cap_surface_body tm sh mesh plane_origin plane_normal of
        Inl e \<Rightarrow> None
      | Inr result \<Rightarrow> result)"

subsection \<open>\<^verbatim>\<open>perform_split_and_key\<close>\<close>

text \<open>Lines 169--195: one pin and one hole cutter for each centre, in order.\<close>

fun make_keys ::
  "('p, 't) trimesh_lib \<Rightarrow> real \<Rightarrow> real \<Rightarrow> 't \<Rightarrow> vec3 list
     \<Rightarrow> py_exception + trimesh list \<times> trimesh list" where
  "make_keys tm pin_radius pin_height rotation [] = Inr ([], [])"
| "make_keys tm pin_radius pin_height rotation (center # rest) =
     (let pin_chamfer = pin_chamfer_of pin_radius;
          pin0 = create_chamfered_pin pin_radius pin_height pin_chamfer True True
      in and_then (apply_transform tm pin0 rotation) (\<lambda>pin1.
         and_then (apply_translation tm pin1 center) (\<lambda>pin.
         let hole_radius = hole_radius_of pin_radius;
             hole_height = hole_height_of pin_height;
             hole_chamfer = hole_chamfer_of hole_radius;
             cutter0 = create_chamfered_pin hole_radius hole_height hole_chamfer False True
         in and_then (apply_transform tm cutter0 rotation) (\<lambda>cutter1.
            and_then (apply_translation tm cutter1 center) (\<lambda>hole_cutter.
            and_then (make_keys tm pin_radius pin_height rotation rest) (\<lambda>(pins, hole_cutters).
            Inr (pin # pins, hole_cutter # hole_cutters)))))))"

text \<open>A scene returned by a boolean operation is concatenated into one mesh.\<close>

definition single_mesh :: "('p, 't) trimesh_lib \<Rightarrow> boolean_result \<Rightarrow> py_exception + trimesh" where
  "single_mesh tm r = (case r of Mesh m \<Rightarrow> Inr m | Scene ms \<Rightarrow> concatenate tm ms)"

definition combine :: "('p, 't) trimesh_lib \<Rightarrow> trimesh list \<Rightarrow> py_exception + trimesh" where
  "combine tm parts = (if length parts > 1 then concatenate tm parts else py_nth parts 0)"

text \<open>Lines 200--212: the union with its fallback; lines 215--226: the difference with its own.\<close>

definition union_pins ::
  "('p, 't) trimesh_lib \<Rightarrow> trimesh \<Rightarrow> trimesh list \<Rightarrow> py_exception + trimesh" where
  "union_pins tm mesh_a pins =
     (case and_then (combine tm pins) (\<lambda>all_pins.
           and_then (boolean_union tm [mesh_a, all_pins]) (single_mesh tm)) of
        Inr mesh_a_keyed \<Rightarrow> Inr mesh_a_keyed
      | Inl e \<Rightarrow> concatenate tm (mesh_a # pins))"

definition subtract_holes ::
  "('p, 't) trimesh_lib \<Rightarrow> trimesh \<Rightarrow> trimesh list \<Rightarrow> trimesh" where
  "subtract_holes tm mesh_b hole_cutters =
     (case and_then (combine tm hole_cutters) (\<lambda>all_cutters.
           and_then (boolean_difference tm [mesh_b, all_cutters]) (single_mesh tm)) of
        Inr mesh_b_keyed \<Rightarrow> mesh_b_keyed
      | Inl e \<Rightarrow> mesh_b)"

text \<open>
  Lines 145--195: the sizes from the safe radius, the one rotation from \<^verbatim>\<open>-normal\<close>, then the
  loop over the centres.
\<close>

definition build_keys ::
  "('p, 't) trimesh_lib \<Rightarrow> vec3 \<Rightarrow> cap_data \<Rightarrow> py_exception + trimesh list \<times> trimesh list" where
  "build_keys tm normal data =
     (let centers_3d = cap_centers data;
          pin_radius = pin_radius_of (cap_max_radius data);
          pin_height = pin_height_of pin_radius;
          target_direction = vneg normal
      in and_then (align_vectors tm z_axis target_direction) (\<lambda>rotation.
         make_keys tm pin_radius pin_height rotation centers_3d))"

definition perform_split_and_key ::
  "('p, 't) trimesh_lib \<Rightarrow> 'p shapely_lib \<Rightarrow> trimesh \<Rightarrow> vec3 \<Rightarrow> vec3
     \<Rightarrow> py_exception + trimesh \<times> trimesh" where
  "perform_split_and_key tm sh mesh origin normal =
     and_then (slice_mesh_plane tm mesh origin normal) (\<lambda>mesh_a.
     let neg_normal = vneg normal
     in and_then (slice_mesh_plane tm mesh origin neg_normal) (\<lambda>mesh_b.
        case analyze_cap_surface tm sh mesh_a origin normal of
          None \<Rightarrow> Inr (mesh_a, mesh_b)
        | Some data \<Rightarrow>
            and_then (build_keys tm normal data) (\<lambda>(pins, hole_cutters).
            and_then (union_pins tm mesh_a pins) (\<lambda>mesh_a_keyed.
            Inr (mesh_a_keyed, subtract_holes tm mesh_b hole_cutters)))))"

subsection \<open>\<^verbatim>\<open>perform_split\<close> (\<^verbatim>\<open>main.py\<close>, lines 105--139)\<close>

definition z_down :: vec3 where
  "z_down = (0, 0, - 1)"

text \<open>Lines 122--133: the rotation is skipped when it raises.\<close>

definition lay_flat :: "('p, 't) trimesh_lib \<Rightarrow> trimesh \<Rightarrow> vec3 \<Rightarrow> trimesh" where
  "lay_flat tm part cut_normal =
     (case and_then (align_vectors tm cut_normal z_down) (\<lambda>T. apply_transform tm part T) of
        Inr rotated \<Rightarrow> rotated
      | Inl e \<Rightarrow> part)"

text \<open>Lines 136--139: the part is moved up so that its lowest point is at height 0.\<close>

definition to_floor :: "('p, 't) trimesh_lib \<Rightarrow> trimesh \<Rightarrow> py_exception + trimesh" where
  "to_floor tm part =
     (case mesh_bounds tm part of
        Some bounds \<Rightarrow> apply_translation tm part (0, 0, - coord (fst bounds) 2)
      | None \<Rightarrow> Inr part)"

definition perform_split ::
  "('p, 't) trimesh_lib \<Rightarrow> 'p shapely_lib \<Rightarrow> trimesh \<Rightarrow> vec3 \<Rightarrow> vec3 \<Rightarrow> bool
     \<Rightarrow> py_exception + trimesh \<times> trimesh" where
  "perform_split tm sh mesh origin normal addKeys =
     and_then (if addKeys then perform_split_and_key tm sh mesh origin normal
               else and_then (slice_mesh_plane tm mesh origin normal) (\<lambda>part_a.
                    and_then (slice_mesh_plane tm mesh origin (vneg normal)) (\<lambda>part_b.
                    Inr (part_a, part_b))))
       (\<lambda>(part_a, part_b).
          and_then (to_floor tm (lay_flat tm part_a (vneg normal))) (\<lambda>part_a'.
          and_then (to_floor tm (lay_flat tm part_b normal)) (\<lambda>part_b'.
          Inr (part_a', part_b'))))"

subsection \<open>A small instance of the libraries\<close>

text \<open>
  To run the model on concrete inputs the two library records need values. The instance
  below is a stand-in for trimesh and shapely on the simplest family of cases: cuts normal
  to the z axis, caps that are axis-aligned rectangles (a pair of corners), transforms that
  are translations (a vector). It is used for the examples only; every general theorem
  holds for all values of the records.
\<close>

fun translate :: "vec3 \<Rightarrow> vec3 \<Rightarrow> vec3" where
  "translate (a, b, c) (x, y, z) = (x + a, y + b, z + c)"

definition move_mesh :: "trimesh \<Rightarrow> vec3 \<Rightarrow> trimesh" where
  "move_mesh m t = m \<lparr> vertices := map (translate t) (vertices m) \<rparr>"

definition mesh_append :: "trimesh \<Rightarrow> trimesh \<Rightarrow> trimesh" where
  "mesh_append a b =
     \<lparr> vertices = vertices a @ vertices b,
       faces = faces a @ map (\<lambda>(i, j, k). (i + length (vertices a), j + length (vertices a),
                                            k + length (vertices a))) (faces b) \<rparr>"

definition empty_mesh :: trimesh where
  "empty_mesh = \<lparr> vertices = [], faces = [] \<rparr>"

definition box_of :: "vec3 list \<Rightarrow> (vec3 \<times> vec3) option" where
  "box_of vs = (case vs of [] \<Rightarrow> None
     | v # rest \<Rightarrow> Some (foldl (\<lambda>(a, b, c) (x, y, z). (min a x, min b y, min c z)) v rest,
                        foldl (\<lambda>(a, b, c) (x, y, z). (max a x, max b y, max c z)) v rest))"

definition face_vertices :: "trimesh \<Rightarrow> vec3 list" where
  "face_vertices m =
     concat (map (\<lambda>(i, j, k). [vertices m ! i, vertices m ! j, vertices m ! k])
               (filter (\<lambda>(i, j, k). i < length (vertices m) \<and> j < length (vertices m)
                                     \<and> k < length (vertices m)) (faces m)))"

definition flat_trimesh :: "(point2 \<times> point2, vec3) trimesh_lib" where
  "flat_trimesh =
     \<lparr> mesh_bounds = (\<lambda>m. box_of (vertices m)),
       mesh_extents = (\<lambda>m. map_option (\<lambda>(lo, hi). vsub hi lo) (box_of (vertices m))),
       mesh_centroid = (\<lambda>m. case box_of (vertices m) of
                               None \<Rightarrow> (0, 0, 0)
                             | Some (lo, hi) \<Rightarrow> vscale (1 / 2) (vsub hi (vneg lo))),
       section_visualization = (\<lambda>m origin normal. Inr None),
       slice_mesh_plane = (\<lambda>m origin normal.
          Inr (m \<lparr> faces := filter (\<lambda>(i, j, k). list_all (\<lambda>v. dot3 (vsub v origin) normal \<ge> 0)
                                          (face_vertices (m \<lparr> faces := [(i, j, k)] \<rparr>)))
                                  (faces m) \<rparr>)),
       submesh = (\<lambda>m indices.
          if list_all (\<lambda>i. i < length (faces m)) indices
          then Inr (m \<lparr> faces := map (\<lambda>i. faces m ! i) indices \<rparr>)
          else Inl IndexError),
       merge_vertices = Inr,
       apply_transform = (\<lambda>m t. Inr (move_mesh m t)),
       apply_translation = (\<lambda>m t. Inr (move_mesh m t)),
       concatenate = (\<lambda>ms. Inr (foldr mesh_append ms empty_mesh)),
       boolean_union = (\<lambda>ms. Inr (Mesh (foldr mesh_append ms empty_mesh))),
       boolean_difference = (\<lambda>ms. Inl (LibraryError 0)),
       projected = (\<lambda>m normal origin.
          Inr (map_option (\<lambda>((a, b, c), (x, y, z)). ((a, b), (x, y)))
                 (box_of (map (\<lambda>v. vsub v origin) (face_vertices m))))),
       translation_matrix = Inr,
       align_vectors = (\<lambda>a b. if a = (0, 0, 0) \<or> b = (0, 0, 0) then Inl (LibraryError 1)
                               else Inr (0, 0, 0)),
       concatenate_matrices = (\<lambda>s t. Inr (translate s t)),
       inverse_matrix = (\<lambda>t. Inr (vneg t)),
       np_dot = (\<lambda>(a, b, c) (x, y, z, w). Inr (x + w * a, y + w * b, z + w * c, w)) \<rparr>"

definition flat_shapely :: "(point2 \<times> point2) shapely_lib" where
  "flat_shapely =
     \<lparr> is_empty = (\<lambda>((x0, y0), (x1, y1)). x1 \<le> x0 \<or> y1 \<le> y0),
       is_multipolygon = (\<lambda>p. False),
       unary_union = Inr,
       is_valid = (\<lambda>p. True),
       buffer0 = Inr,
       min_rect_xy = (\<lambda>((x0, y0), (x1, y1)). Inr ([x0, x1, x1, x0, x0], [y0, y0, y1, y1, y0])),
       poly_centroid = (\<lambda>((x0, y0), (x1, y1)). Inr ((x0 + x1) / 2, (y0 + y1) / 2)),
       contains = (\<lambda>((x0, y0), (x1, y1)) (x, y). Inr (x0 < x \<and> x < x1 \<and> y0 < y \<and> y < y1)),
       polylabel = (\<lambda>((x0, y0), (x1, y1)) tol. Inr ((x0 + x1) / 2, (y0 + y1) / 2)),
       boundary_distance = (\<lambda>(x, y) ((x0, y0), (x1, y1)).
          Inr (min (min \<bar>x - x0\<bar> \<bar>x1 - x\<bar>) (min \<bar>y - y0\<bar> \<bar>y1 - y\<bar>))) \<rparr>"

text \<open>Two flat plates just above the plane \<open>z = 0\<close>, each made of two triangles.\<close>

definition plate :: "real \<Rightarrow> real \<Rightarrow> real \<Rightarrow> trimesh" where
  "plate w d z =
     \<lparr> vertices = [(0, 0, z), (w, 0, z), (w, d, z), (0, d, z)],
       faces = [(0, 1, 2), (0, 2, 3)] \<rparr>"

subsection \<open>Closed and outward-facing meshes\<close>





















subsection \<open>Notions used in the statements\<close>

text \<open>A shape rotated, then moved to a centre, as the loop body does with each pin and cutter.\<close>

definition place ::
  "('p, 't) trimesh_lib \<Rightarrow> trimesh \<Rightarrow> 't \<Rightarrow> vec3 \<Rightarrow> py_exception + trimesh" where
  "place tm shape rotation center =
     and_then (apply_transform tm shape rotation) (\<lambda>m. apply_translation tm m center)"

section \<open>Properties\<close>

subsection \<open>Auxiliary facts\<close>

lemma and_then_Inr [simp]: "and_then (Inr x) f = f x"
  by (simp add: and_then_def)

lemma and_then_Inl [simp]: "and_then (Inl e) f = Inl e"
  by (simp add: and_then_def)

lemma and_then_eq_Inr:
  "and_then r f = Inr y \<longleftrightarrow> (\<exists>x. r = Inr x \<and> f x = Inr y)"
  by (cases r) simp_all

lemma foldl_max_Max: "foldl max (e::real) es = Max (insert e (set es))"
proof (induction es arbitrary: e)
  case Nil
  show ?case by simp
next
  case (Cons a es)
  have "foldl max e (a # es) = Max (insert (max e a) (set es))"
    using Cons.IH [of "max e a"] by simp
  also have "\<dots> = Max (insert e (set (a # es)))"
    by (cases "set es = {}") (simp_all add: max.assoc)
  finally show ?case .
qed

lemma foldl_min_Min: "foldl min (e::real) es = Min (insert e (set es))"
proof (induction es arbitrary: e)
  case Nil
  show ?case by simp
next
  case (Cons a es)
  have "foldl min e (a # es) = Min (insert (min e a) (set es))"
    using Cons.IH [of "min e a"] by simp
  also have "\<dots> = Min (insert e (set (a # es)))"
    by (cases "set es = {}") (simp_all add: min.assoc)
  finally show ?case .
qed

lemma edge_lengths_Inr: "edge_lengths x y = Inr es \<Longrightarrow> length es = 4"
  by (auto simp: edge_lengths_def split: if_splits)

lemma clamp_width_max: "clamp_width w = max w 0.1"
  by (simp add: clamp_width_def max_def)

lemma aspect_ratio_value:
  assumes "es \<noteq> []"
  shows "aspect_ratio_of es = Inr (Max (set es) / max (Min (set es)) 0.1)"
proof -
  obtain e rest where es: "es = e # rest"
    using assms by (cases es) auto
  have pos: "max w 0.1 \<noteq> (0::real)" for w
    by (simp add: max_def)
  show ?thesis
    unfolding aspect_ratio_of_def py_max_def py_min_def es
    using pos by (simp add: foldl_max_Max foldl_min_Min clamp_width_max py_truediv_def Let_def)
qed

lemma sizes:
  "pin_chamfer_of r = 0.2 * r" "hole_radius_of r = r + 0.2" "hole_height_of h = h"
  "hole_chamfer_of r = 0.2 * r"
  by (simp_all add: pin_chamfer_of_def hole_radius_of_def hole_height_of_def
        hole_chamfer_of_def tolerance_def)

text \<open>Evaluation of the examples: ranges, axis-parallel distances, the instance's fields.\<close>

lemma upt_0_4: "[0..<4] = [0, 1, 2, 3]"
  by code_simp

lemma upt_0_3: "[0..<3] = [0, 1, 2]"
  by code_simp

lemma upt_0_2: "[0..<2] = [0, 1]"
  by code_simp

lemma point_distance_same_y: "point_distance (a, b) (c, b) = \<bar>a - c\<bar>"
  by simp

lemma point_distance_same_x: "point_distance (a, b) (a, d) = \<bar>b - d\<bar>"
  by simp

lemmas example_simps =
  flat_trimesh_def flat_shapely_def plate_def box_of_def face_vertices_def move_mesh_def
  cap_faces_indices_def face_mask_def on_plane_mask_def np_where_def
  analyze_cap_surface_def analyze_cap_surface_body_def plane_frame_def main_polygon_def
  plan_pins_def edge_lengths_def aspect_ratio_of_def py_max_def py_min_def py_truediv_def
  clamp_width_def num_pins_of_def centers_2d_of_def single_center_def centerline_def
  rect_point_def py_nth_def unbound_local_def cap_result_def back_project_def z_axis_def
  Let_def upt_0_4 upt_0_3 upt_0_2 point_distance_same_x point_distance_same_y

text \<open>Every pin of one call is the same shape under the same rotation; so is every cutter.\<close>

lemma make_keys_shared:
  "make_keys tm pin_radius pin_height rotation cs = Inr (pins, hole_cutters) \<Longrightarrow>
     list_all2 (\<lambda>c p. place tm (create_chamfered_pin pin_radius pin_height
                                  (pin_chamfer_of pin_radius) True True) rotation c = Inr p) cs pins
   \<and> list_all2 (\<lambda>c h. place tm (create_chamfered_pin (hole_radius_of pin_radius)
                                  (hole_height_of pin_height)
                                  (hole_chamfer_of (hole_radius_of pin_radius)) False True)
                           rotation c = Inr h) cs hole_cutters"
proof (induction cs arbitrary: pins hole_cutters)
  case Nil
  then show ?case by simp
next
  case (Cons c cs)
  from Cons.prems obtain pin1 pin cutter1 cutter pins' cutters' where
    p1: "apply_transform tm (create_chamfered_pin pin_radius pin_height
            (pin_chamfer_of pin_radius) True True) rotation = Inr pin1"
    and p2: "apply_translation tm pin1 c = Inr pin"
    and c1: "apply_transform tm (create_chamfered_pin (hole_radius_of pin_radius)
            (hole_height_of pin_height) (hole_chamfer_of (hole_radius_of pin_radius))
            False True) rotation = Inr cutter1"
    and c2: "apply_translation tm cutter1 c = Inr cutter"
    and rest: "make_keys tm pin_radius pin_height rotation cs = Inr (pins', cutters')"
    and res: "pins = pin # pins'" "hole_cutters = cutter # cutters'"
    by (auto simp: and_then_eq_Inr Let_def)
  from Cons.IH [OF rest] show ?case
    by (simp add: res place_def p1 p2 c1 c2)
qed

lemma dot3_vscale: "dot3 v (vscale k n) = k * dot3 v n"
  by (cases v; cases n) (simp add: algebra_simps)

lemma on_plane_mask_scaled:
  assumes "k > 0"
  shows "on_plane_mask vs origin (vscale k n)
         = map (\<lambda>v. \<bar>dot3 (vsub v origin) n\<bar> < 0.0001 / k) vs"
proof -
  have "\<bar>k * d\<bar> < 0.0001 \<longleftrightarrow> \<bar>d\<bar> < 0.0001 / k" for d :: real
    using assms by (simp add: abs_mult pos_less_divide_eq ac_simps)
  then show ?thesis
    by (simp add: on_plane_mask_def dot3_vscale Let_def)
qed

lemma pin_has_faces: "faces (create_chamfered_pin r h c t f) \<noteq> []"
  by (simp add: create_chamfered_pin_def revolve_def Let_def top_faces_def sections_def)

lemma flat_fields:
  "apply_transform flat_trimesh m t = Inr (move_mesh m t)"
  "apply_translation flat_trimesh m t = Inr (move_mesh m t)"
  "align_vectors flat_trimesh a b =
     (if a = (0, 0, 0) \<or> b = (0, 0, 0) then Inl (LibraryError 1) else Inr (0, 0, 0))"
  "concatenate flat_trimesh ms = Inr (foldr mesh_append ms empty_mesh)"
  "boolean_union flat_trimesh ms = Inr (Mesh (foldr mesh_append ms empty_mesh))"
  "boolean_difference flat_trimesh ms = Inl (LibraryError 0)"
  by (simp_all add: flat_trimesh_def)

lemma faces_simps:
  "faces (move_mesh m t) = faces m"
  "faces (mesh_append a b) = faces a @ map (\<lambda>(i, j, k). (i + length (vertices a), j + length (vertices a),
                                            k + length (vertices a))) (faces b)"
  "faces (plate w d z) = [(0, 1, 2), (0, 2, 3)]"
  by (simp_all add: move_mesh_def mesh_append_def plate_def)

lemma place_pins_inside:
  "place_pins sh main_poly s e n is = Inr cs \<Longrightarrow>
     \<forall>c \<in> set cs. contains sh main_poly c = Inr True"
proof (induction "is" arbitrary: cs)
  case Nil
  then show ?case by simp
next
  case (Cons i rest)
  then show ?case
    by (auto simp: and_then_eq_Inr Let_def split: if_splits)
qed

lemma centers_2d_inside:
  assumes "centers_2d_of sh main_poly x y n = Inr cs"
  shows "cs \<noteq> [] \<and> (\<forall>c \<in> set cs. contains sh main_poly c = Inr True
                                  \<or> polylabel sh main_poly 0.1 = Inr c)"
proof (cases "n = 1")
  case True
  with assms show ?thesis
    by (auto simp: centers_2d_of_def single_center_def and_then_eq_Inr split: if_splits)
next
  case False
  with assms obtain s e cs0 where
    pp: "place_pins sh main_poly s e n [0..<n] = Inr cs0"
    and fin: "(if cs0 = [] then and_then (polylabel sh main_poly 0.1) (\<lambda>pt. Inr [pt])
               else Inr cs0) = Inr cs"
    by (auto simp: centers_2d_of_def and_then_eq_Inr)
  from place_pins_inside [OF pp] fin show ?thesis
    by (auto simp: and_then_eq_Inr split: if_splits)
qed

lemma centerline_short_first_edge:
  assumes "rect_point x y 0 = Inr p0" "rect_point x y 1 = Inr p1" "rect_point x y 2 = Inr p2"
    and "point_distance p0 p1 < point_distance p1 p2"
  shows "centerline x y = Inl UnboundLocalError"
  using assms by (simp add: centerline_def unbound_local_def Let_def)






















































































text \<open>Examples on the instance of the libraries, used by the statements below.\<close>

lemma plate_5_50_body:
  "analyze_cap_surface_body flat_trimesh flat_shapely (plate 5 50 0) (0, 0, 0) (0, 0, 1)
     = Inl UnboundLocalError"
  by (simp add: example_simps del: point_distance.simps)

lemma plate_5_50_slice_up: "slice_mesh_plane flat_trimesh (plate 5 50 0) (0, 0, 0) (0, 0, 1) = Inr (plate 5 50 0)"
  by (simp add: example_simps)

lemma plate_5_50_slice_down: "slice_mesh_plane flat_trimesh (plate 5 50 0) (0, 0, 0) (vneg (0, 0, 1)) = Inr (plate 5 50 0)"
  by (simp add: example_simps)

lemma plate_keyed:
  "\<exists>keyed other. perform_split_and_key flat_trimesh flat_shapely (plate 20 20 0.00007) (0, 0, 0) (0, 0, 1)
     = Inr (keyed, other) \<and> length (faces keyed) > 2"
proof -
  have b: "analyze_cap_surface flat_trimesh flat_shapely (plate 20 20 0.00007) (0, 0, 0) (0, 0, 1)
             = Some \<lparr> cap_centers = [(10, 10, 0)], cap_max_radius = 10 \<rparr>"
    by (simp add: example_simps del: point_distance.simps)
  have s1: "slice_mesh_plane flat_trimesh (plate 20 20 0.00007) (0, 0, 0) (0, 0, 1) = Inr (plate 20 20 0.00007)"
    by (simp add: example_simps)
  have s2: "slice_mesh_plane flat_trimesh (plate 20 20 0.00007) (0, 0, 0) (vneg (0, 0, 1)) = Inr ((plate 20 20 0.00007) \<lparr> faces := [] \<rparr>)"
    by (simp add: example_simps)
  show ?thesis
    unfolding perform_split_and_key_def s1 s2 b Let_def and_then_Inr
    by (simp add: build_keys_def Let_def z_axis_def flat_fields union_pins_def combine_def
          py_nth_def single_mesh_def faces_simps pin_has_faces)
qed

lemma plate_unkeyed:
  "perform_split_and_key flat_trimesh flat_shapely (plate 20 20 0.00007) (0, 0, 0) (0, 0, 2)
     = Inr (plate 20 20 0.00007, (plate 20 20 0.00007) \<lparr> faces := [] \<rparr>)"
proof -
  have a: "analyze_cap_surface flat_trimesh flat_shapely (plate 20 20 0.00007) (0, 0, 0) (0, 0, 2)
             = None"
    by (simp add: example_simps)
  have s1: "slice_mesh_plane flat_trimesh (plate 20 20 0.00007) (0, 0, 0) (0, 0, 2) = Inr (plate 20 20 0.00007)"
    by (simp add: example_simps)
  have s2: "slice_mesh_plane flat_trimesh (plate 20 20 0.00007) (0, 0, 0) (vneg (0, 0, 2)) = Inr ((plate 20 20 0.00007) \<lparr> faces := [] \<rparr>)"
    by (simp add: example_simps)
  show ?thesis
    unfolding perform_split_and_key_def s1 s2 a Let_def and_then_Inr by simp
qed

lemma flat_finish_faces:
  assumes "perform_split_and_key flat_trimesh sh mesh origin normal = Inr (a, b)"
    and "normal \<noteq> (0, 0, 0)"
  shows "\<exists>a' b'. perform_split flat_trimesh sh mesh origin normal True = Inr (a', b')
                  \<and> faces a' = faces a \<and> faces b' = faces b"
proof -
  have n: "vneg normal \<noteq> (0, 0, 0)"
    using assms(2) by (cases normal) auto
  have lay: "lay_flat flat_trimesh m v = move_mesh m (0, 0, 0)" if "v \<noteq> (0, 0, 0)" for m v
    using that by (simp add: lay_flat_def flat_fields z_down_def)
  have floor: "\<exists>m'. to_floor flat_trimesh m = Inr m' \<and> faces m' = faces m" for m
    by (cases "mesh_bounds flat_trimesh m") (simp_all add: to_floor_def flat_fields faces_simps)
  obtain a' where a': "to_floor flat_trimesh (move_mesh a (0, 0, 0)) = Inr a'"
      "faces a' = faces a"
    using floor [of "move_mesh a (0, 0, 0)"] by (auto simp: faces_simps)
  obtain b' where b': "to_floor flat_trimesh (move_mesh b (0, 0, 0)) = Inr b'"
      "faces b' = faces b"
    using floor [of "move_mesh b (0, 0, 0)"] by (auto simp: faces_simps)
  show ?thesis
    using a' b' by (simp add: perform_split_def assms(1) lay n assms(2))
qed

subsection \<open>The claims\<close>

text \<open>
  C1 as stated: a split with a non-unit normal gives the same result as the split with the
  unit normal. It fails: on a plate 0.00007 above the plane \<open>z = 0\<close>, the normal \<open>(0, 0, 2)\<close>
  finds no cap and leaves the halves without keys, the normal \<open>(0, 0, 1)\<close> finds the cap and
  adds a pin.
\<close>

theorem unnormalised_normal_counterexample:
  "perform_split flat_trimesh flat_shapely (plate 20 20 0.00007) (0, 0, 0) (0, 0, 2) True
     \<noteq> perform_split flat_trimesh flat_shapely (plate 20 20 0.00007) (0, 0, 0) (0, 0, 1) True"
proof
  assume eq: "perform_split flat_trimesh flat_shapely (plate 20 20 0.00007) (0, 0, 0) (0, 0, 2) True
     = perform_split flat_trimesh flat_shapely (plate 20 20 0.00007) (0, 0, 0) (0, 0, 1) True"
  from plate_keyed obtain k other where
    k: "perform_split_and_key flat_trimesh flat_shapely (plate 20 20 0.00007) (0, 0, 0) (0, 0, 1)
         = Inr (k, other)" and l: "length (faces k) > 2"
    by blast
  from flat_finish_faces [OF k] obtain a1 b1 where
    r1: "perform_split flat_trimesh flat_shapely (plate 20 20 0.00007) (0, 0, 0) (0, 0, 1) True
           = Inr (a1, b1)" and f1: "faces a1 = faces k"
    by auto
  from flat_finish_faces [OF plate_unkeyed] obtain a2 b2 where
    r2: "perform_split flat_trimesh flat_shapely (plate 20 20 0.00007) (0, 0, 0) (0, 0, 2) True
           = Inr (a2, b2)" and f2: "faces a2 = faces (plate 20 20 0.00007)"
    by auto
  from eq r1 r2 have "a1 = a2" by simp
  with f1 f2 have "length (faces k) = length (faces (plate 20 20 0.00007))" by simp
  with l show False by (simp add: faces_simps)
qed

text \<open>
  C1 as amended. The normal is used as supplied. For \<open>k > 0\<close> the normal \<open>k * n\<close> marks a
  vertex as on the plane exactly when its distance measured with \<open>n\<close> is below
  \<open>0.0001 / k\<close>; the cap faces selected with \<open>k * n\<close> and with \<open>n\<close> are the same whenever no
  vertex of the half lies between the two thresholds.
\<close>

theorem normal_scaling_law:
  assumes "k > 0"
  shows "on_plane_mask vs origin (vscale k n)
           = map (\<lambda>v. \<bar>dot3 (vsub v origin) n\<bar> < 0.0001 / k) vs
       \<and> ((\<forall>v \<in> set (vertices mesh).
              \<bar>dot3 (vsub v origin) n\<bar> < 0.0001 / k \<longleftrightarrow> \<bar>dot3 (vsub v origin) n\<bar> < 0.0001)
            \<longrightarrow> cap_faces_indices mesh origin (vscale k n) = cap_faces_indices mesh origin n)"
proof -
  have m: "on_plane_mask vs origin (vscale k n)
           = map (\<lambda>v. \<bar>dot3 (vsub v origin) n\<bar> < 0.0001 / k) vs" for vs
    using assms by (rule on_plane_mask_scaled)
  have u: "on_plane_mask vs origin n = map (\<lambda>v. \<bar>dot3 (vsub v origin) n\<bar> < 0.0001) vs" for vs
    by (simp add: on_plane_mask_def Let_def)
  have "on_plane_mask (vertices mesh) origin (vscale k n) = on_plane_mask (vertices mesh) origin n"
    if "\<forall>v \<in> set (vertices mesh).
              \<bar>dot3 (vsub v origin) n\<bar> < 0.0001 / k \<longleftrightarrow> \<bar>dot3 (vsub v origin) n\<bar> < 0.0001"
    using that by (simp add: m u)
  then show ?thesis
    using m by (simp add: cap_faces_indices_def)
qed

theorem normal_scaling_law_witness:
  "(0::real) < 2
   \<and> on_plane_mask [(0, 0, 0.00007)] (0, 0, 0) (vscale 2 (0, 0, 1)) = [False]
   \<and> on_plane_mask [(0, 0, 0.00007)] (0, 0, 0) (0, 0, 1) = [True]
   \<and> cap_faces_indices (plate 20 20 0) (0, 0, 0) (vscale 2 (0, 0, 1))
       = cap_faces_indices (plate 20 20 0) (0, 0, 0) (0, 0, 1)"
proof -
  have k: "(0::real) < 2" by simp
  have a: "on_plane_mask [(0, 0, 0.00007)] (0, 0, 0) (vscale 2 (0, 0, 1)) = [False]"
    using normal_scaling_law [OF k, of "[(0, 0, 0.00007)]" "(0, 0, 0)" "(0, 0, 1)"]
    by simp
  have b: "cap_faces_indices (plate 20 20 0) (0, 0, 0) (vscale 2 (0, 0, 1))
       = cap_faces_indices (plate 20 20 0) (0, 0, 0) (0, 0, 1)"
    using normal_scaling_law [OF k, of _ "(0, 0, 0)" "(0, 0, 1)" "plate 20 20 0"]
    by (simp add: plate_def)
  show ?thesis
    using a b by (simp add: on_plane_mask_def)
qed




text \<open>
  C4 at a failing input. A cap 5 wide and 50 long has aspect ratio 10, so two pins are
  planned; the first edge of its rectangle is the short one, the centerline is never
  built, and the analysis ends with no centre at all, neither a kept point nor the
  fallback. The same cap turned by a quarter turn gets its two centres.
\<close>

theorem multi_pin_short_first_edge_raises:
  "centerline [0, 5, 5, 0, 0] [0, 0, 50, 50, 0] = Inl UnboundLocalError
   \<and> centers_2d_of flat_shapely ((0, 0), (5, 50)) [0, 5, 5, 0, 0] [0, 0, 50, 50, 0] 2
       = Inl UnboundLocalError
   \<and> analyze_cap_surface flat_trimesh flat_shapely (plate 5 50 0) (0, 0, 0) (0, 0, 1) = None
   \<and> analyze_cap_surface flat_trimesh flat_shapely (plate 50 5 0) (0, 0, 0) (0, 0, 1)
       = Some \<lparr> cap_centers = [(12.5, 2.5, 0), (37.5, 2.5, 0)], cap_max_radius = 2.5 \<rparr>"
proof -
  have a: "centerline [0, 5, 5, 0, 0] [0, 0, 50, 50, 0] = Inl UnboundLocalError"
    by (simp add: example_simps del: point_distance.simps)
  have b: "centers_2d_of flat_shapely ((0, 0), (5, 50)) [0, 5, 5, 0, 0] [0, 0, 50, 50, 0] 2
       = Inl UnboundLocalError"
    by (simp add: centers_2d_of_def a)
  have c: "analyze_cap_surface flat_trimesh flat_shapely (plate 5 50 0) (0, 0, 0) (0, 0, 1) = None"
    by (simp add: analyze_cap_surface_def plate_5_50_body)
  have d: "analyze_cap_surface flat_trimesh flat_shapely (plate 50 5 0) (0, 0, 0) (0, 0, 1)
       = Some \<lparr> cap_centers = [(12.5, 2.5, 0), (37.5, 2.5, 0)], cap_max_radius = 2.5 \<rparr>"
    by (simp add: example_simps del: point_distance.simps)
  show ?thesis using a b c d by simp
qed

text \<open>
  C5. For every call \<^verbatim>\<open>_create_chamfered_pin(r, h, c, taper_top, flare_bottom)\<close> with
  \<open>c > 0\<close>: the chamfer is rescaled to \<open>h / 3\<close> exactly when
  \<open>(taper_top + flare_bottom) * c \<ge> h\<close> and is otherwise used unchanged, and the profile
  built by the code is the one the specification lists, bottom to top:
  \<open>(0, r + c)\<close> then \<open>(c, r)\<close> when \<open>flare_bottom\<close>, else \<open>(0, r)\<close>; followed by
  \<open>(h - c, r)\<close> then \<open>(h, r - c)\<close> when \<open>taper_top\<close>, else \<open>(h, r)\<close>.
\<close>

theorem profile_matches_spec:
  assumes "c > 0"
  shows "fit_chamfer h c taper_top flare_bottom = spec_chamfer h c taper_top flare_bottom
       \<and> profile r h c taper_top flare_bottom = spec_profile r h c taper_top flare_bottom"
proof -
  have fit: "fit_chamfer h c taper_top flare_bottom = spec_chamfer h c taper_top flare_bottom"
    by (cases taper_top; cases flare_bottom)
       (simp_all add: fit_chamfer_def spec_chamfer_def needed_height_def)
  show ?thesis
    by (simp add: fit profile_def spec_profile_def Let_def)
qed

theorem profile_matches_spec_witness:
  "(0::real) < 1
   \<and> fit_chamfer 3 1 True True = spec_chamfer 3 1 True True
   \<and> profile 2 3 1 True True = spec_profile 2 3 1 True True
   \<and> profile 2 3 1 True True = [(0, 3), (1, 2), (2, 2), (3, 1)]
   \<and> profile 2 3 2 True True = [(0, 3), (1, 2), (2, 2), (3, 1)]"
  using profile_matches_spec [of 1 3 True True 2]
  by (simp add: profile_def fit_chamfer_def needed_height_def)




text \<open>
  C7. With the axis absent, empty or not one of x, y, z (so also for \<^verbatim>\<open>auto\<close>) the axis \<open>i\<close>
  is the first index of the largest extent; with a hint it is the hinted axis. For the
  axis \<open>i\<close> chosen, the normal is the positive unit vector of axis \<open>i\<close> and the origin is the
  centroid with coordinate \<open>i\<close> replaced by the midpoint of the bounds; this is what the call
  returns whenever building the section mesh does not raise.
\<close>

theorem suggest_split_midplane:
  assumes "mesh_bounds tm mesh = Some (lo, hi)" and "mesh_extents tm mesh = Some extents"
  shows "\<exists>i<3.
       (request_axis_idx axis = None \<longrightarrow>
          i = argmax3 extents \<and> (\<forall>k<3. coord extents k \<le> coord extents i)
          \<and> (\<forall>k<i. coord extents k < coord extents i))
     \<and> (\<forall>a. axis = Some a \<and> str_lower a = ''x'' \<longrightarrow> i = 0)
     \<and> (\<forall>a. axis = Some a \<and> str_lower a = ''y'' \<longrightarrow> i = 1)
     \<and> (\<forall>a. axis = Some a \<and> str_lower a = ''z'' \<longrightarrow> i = 2)
     \<and> ((\<forall>a. axis = Some a \<longrightarrow> str_lower a \<notin> {''x'', ''y'', ''z''}) \<longrightarrow> request_axis_idx axis = None)
     \<and> suggest_split_request tm mesh axis =
         and_then (section_visualization tm mesh
                     (set_coord (mesh_centroid tm mesh) i ((coord lo i + coord hi i) / 2))
                     (unit_axis i))
           (\<lambda>section_mesh.
              Inr (set_coord (mesh_centroid tm mesh) i ((coord lo i + coord hi i) / 2),
                   unit_axis i, section_mesh))"
proof -
  have lower_nonempty: "str_lower [] = []"
    by (simp add: str_lower_def)
  have am: "axis_map s = (if s = ''x'' then Some 0 else if s = ''y'' then Some 1
                          else if s = ''z'' then Some 2 else None)" for s
    by (simp add: axis_map_def)
  have cases: "request_axis_idx axis \<in> {None, Some 0, Some 1, Some 2}"
    by (simp add: request_axis_idx_def am split: option.splits)
  obtain ex ey ez where ext: "extents = (ex, ey, ez)" by (cases extents) auto
  have arg: "argmax3 extents < 3 \<and> (\<forall>k<3. coord extents k \<le> coord extents (argmax3 extents))
       \<and> (\<forall>k<argmax3 extents. coord extents k < coord extents (argmax3 extents))"
    by (auto simp: ext less_Suc_eq numeral_3_eq_3)
  define i where "i = (case request_axis_idx axis of None \<Rightarrow> argmax3 extents | Some k \<Rightarrow> nat k)"
  have i3: "i < 3" using cases arg by (auto simp: i_def)
  have sel: "(case request_axis_idx axis of None \<Rightarrow> Some (argmax3 extents) | Some k \<Rightarrow> py_index3 k) = Some i"
    using cases by (auto simp: i_def py_index3_def)
  have unit: "set_coord (0, 0, 0) i 1.0 = unit_axis i"
    by (simp add: unit_axis_def)
  have run: "suggest_split_request tm mesh axis =
         and_then (section_visualization tm mesh
                     (set_coord (mesh_centroid tm mesh) i ((coord lo i + coord hi i) / 2))
                     (unit_axis i))
           (\<lambda>section_mesh.
              Inr (set_coord (mesh_centroid tm mesh) i ((coord lo i + coord hi i) / 2),
                   unit_axis i, section_mesh))"
    using unit by (simp add: suggest_split_request_def suggest_split_def assms sel Let_def)
  have hint: "request_axis_idx axis = axis_map (str_lower a)"
    if "axis = Some a" and "str_lower a \<in> {''x'', ''y'', ''z''}" for a
  proof -
    have "a \<noteq> []" using that(2) lower_nonempty by auto
    then show ?thesis by (simp add: request_axis_idx_def that(1))
  qed
  have x: "\<forall>a. axis = Some a \<and> str_lower a = ''x'' \<longrightarrow> i = 0"
    using hint by (simp add: i_def am)
  have y: "\<forall>a. axis = Some a \<and> str_lower a = ''y'' \<longrightarrow> i = 1"
    using hint by (simp add: i_def am)
  have z: "\<forall>a. axis = Some a \<and> str_lower a = ''z'' \<longrightarrow> i = 2"
    using hint by (simp add: i_def am)
  have n: "(\<forall>a. axis = Some a \<longrightarrow> str_lower a \<notin> {''x'', ''y'', ''z''}) \<longrightarrow> request_axis_idx axis = None"
    by (auto simp: request_axis_idx_def am split: option.splits)
  have auto_case: "request_axis_idx axis = None \<longrightarrow>
          i = argmax3 extents \<and> (\<forall>k<3. coord extents k \<le> coord extents i)
          \<and> (\<forall>k<i. coord extents k < coord extents i)"
    using arg by (simp add: i_def)
  show ?thesis
    by (rule exI [of _ i]) (intro conjI i3 auto_case x y z n run)
qed

theorem suggest_split_midplane_witness:
  "mesh_bounds flat_trimesh (plate 100 50 0) = Some ((0, 0, 0), (100, 50, 0))
   \<and> mesh_extents flat_trimesh (plate 100 50 0) = Some (100, 50, 0)
   \<and> request_axis_idx None = None
   \<and> suggest_split_request flat_trimesh (plate 100 50 0) None
       = Inr ((50, 25, 0), (1, 0, 0), None)
   \<and> str_lower ''Y'' = ''y''
   \<and> suggest_split_request flat_trimesh (plate 100 50 0) (Some ''Y'')
       = Inr ((50, 25, 0), (0, 1, 0), None)"
proof -
  have b: "mesh_bounds flat_trimesh (plate 100 50 0) = Some ((0, 0, 0), (100, 50, 0))"
    by (simp add: example_simps)
  have e: "mesh_extents flat_trimesh (plate 100 50 0) = Some (100, 50, 0)"
    by (simp add: example_simps)
  have r: "request_axis_idx None = None"
    by (simp add: request_axis_idx_def)
  have l: "str_lower ''Y'' = ''y''"
    by (simp add: str_lower_def lower_char_def)
  have c: "mesh_centroid flat_trimesh (plate 100 50 0) = (50, 25, 0)"
    by (simp add: example_simps)
  have s: "section_visualization flat_trimesh m origin normal = Inr None" for m origin normal
    by (simp add: flat_trimesh_def)
  from suggest_split_midplane [OF b e, of None] obtain i where
    i: "i = argmax3 (100, 50, 0)"
    and run: "suggest_split_request flat_trimesh (plate 100 50 0) None =
         and_then (section_visualization flat_trimesh (plate 100 50 0)
                     (set_coord (mesh_centroid flat_trimesh (plate 100 50 0)) i
                        ((coord (0, 0, 0) i + coord (100, 50, 0) i) / 2))
                     (unit_axis i))
           (\<lambda>section_mesh.
              Inr (set_coord (mesh_centroid flat_trimesh (plate 100 50 0)) i
                     ((coord (0, 0, 0) i + coord (100, 50, 0) i) / 2),
                   unit_axis i, section_mesh))"
    using r by blast
  have "i = 0" using i by simp
  then have auto_axis: "suggest_split_request flat_trimesh (plate 100 50 0) None
       = Inr ((50, 25, 0), (1, 0, 0), None)"
    using run by (simp add: c s unit_axis_def)
  from suggest_split_midplane [OF b e, of "Some ''Y''"] obtain k where
    hint_y: "\<forall>a. Some ''Y'' = Some a \<and> str_lower a = ''y'' \<longrightarrow> k = 1"
    and run_y: "suggest_split_request flat_trimesh (plate 100 50 0) (Some ''Y'') =
         and_then (section_visualization flat_trimesh (plate 100 50 0)
                     (set_coord (mesh_centroid flat_trimesh (plate 100 50 0)) k
                        ((coord (0, 0, 0) k + coord (100, 50, 0) k) / 2))
                     (unit_axis k))
           (\<lambda>section_mesh.
              Inr (set_coord (mesh_centroid flat_trimesh (plate 100 50 0)) k
                     ((coord (0, 0, 0) k + coord (100, 50, 0) k) / 2),
                   unit_axis k, section_mesh))"
    by (elim exE conjE)
  have given: "Some ''Y'' = Some ''Y'' \<and> str_lower ''Y'' = ''y''"
    using l by (intro conjI refl)
  from hint_y have "Some ''Y'' = Some ''Y'' \<and> str_lower ''Y'' = ''y'' \<longrightarrow> k = 1"
    by (rule spec)
  then have k: "k = 1"
    using given by (rule mp)
  have hinted: "suggest_split_request flat_trimesh (plate 100 50 0) (Some ''Y'')
       = Inr ((50, 25, 0), (0, 1, 0), None)"
    using run_y by (simp add: k c s unit_axis_def)
  show ?thesis
    using b e r l auto_axis hinted by simp
qed

text \<open>
  C8. Every exception raised inside the body of the analysis becomes the result \<^verbatim>\<open>None\<close>;
  and whenever the analysis of half A returns \<^verbatim>\<open>None\<close>, \<^verbatim>\<open>perform_split_and_key\<close> returns the
  two halves exactly as the slicer produced them.
\<close>

theorem analysis_total_keying_atomic:
  "(analyze_cap_surface_body tm sh mesh_a origin normal = Inl e
      \<longrightarrow> analyze_cap_surface tm sh mesh_a origin normal = None)
   \<and> (slice_mesh_plane tm mesh origin normal = Inr mesh_a
        \<and> slice_mesh_plane tm mesh origin (vneg normal) = Inr mesh_b
        \<and> analyze_cap_surface tm sh mesh_a origin normal = None
      \<longrightarrow> perform_split_and_key tm sh mesh origin normal = Inr (mesh_a, mesh_b))"
  by (simp add: analyze_cap_surface_def perform_split_and_key_def)

theorem analysis_total_keying_atomic_witness:
  "analyze_cap_surface_body flat_trimesh flat_shapely (plate 5 50 0) (0, 0, 0) (0, 0, 1)
     = Inl UnboundLocalError
   \<and> analyze_cap_surface flat_trimesh flat_shapely (plate 5 50 0) (0, 0, 0) (0, 0, 1) = None
   \<and> perform_split_and_key flat_trimesh flat_shapely (plate 5 50 0) (0, 0, 0) (0, 0, 1)
     = Inr (plate 5 50 0, plate 5 50 0)"
  using plate_5_50_body plate_5_50_slice_up plate_5_50_slice_down
    analysis_total_keying_atomic [of flat_trimesh flat_shapely "plate 5 50 0" "(0, 0, 0)"
       "(0, 0, 1)" UnboundLocalError "plate 5 50 0" "plate 5 50 0"]
  by simp

text \<open>
  C9. The division that computes the aspect ratio never divides by zero: the width is
  clamped to at least 0.1 first, so whenever the four edge lengths exist the aspect ratio
  is the number \<open>L / clamp_width W\<close>.
\<close>

theorem aspect_ratio_never_divides_by_zero:
  "0.1 \<le> clamp_width width
   \<and> aspect_ratio_of lengths \<noteq> Inl ZeroDivisionError
   \<and> (edge_lengths x y = Inr lengths \<longrightarrow>
        aspect_ratio_of lengths = Inr (Max (set lengths) / clamp_width (Min (set lengths))))"
proof -
  have w: "0.1 \<le> clamp_width width"
    by (simp add: clamp_width_def)
  have z: "aspect_ratio_of lengths \<noteq> Inl ZeroDivisionError"
  proof (cases lengths)
    case Nil
    then show ?thesis by (simp add: aspect_ratio_of_def py_max_def)
  next
    case (Cons e es)
    then show ?thesis using aspect_ratio_value [of lengths] by simp
  qed
  have "edge_lengths x y = Inr lengths \<Longrightarrow> lengths \<noteq> []"
    using edge_lengths_Inr by fastforce
  then have v: "edge_lengths x y = Inr lengths \<longrightarrow>
        aspect_ratio_of lengths = Inr (Max (set lengths) / clamp_width (Min (set lengths)))"
    using aspect_ratio_value by (simp add: clamp_width_max)
  show ?thesis using w z v by blast
qed

theorem aspect_ratio_never_divides_by_zero_witness:
  "edge_lengths [0, 7, 7, 0, 0] [0, 0, 0, 0, 0] = Inr [7, 0, 7, 0]
   \<and> clamp_width 0 = 0.1
   \<and> aspect_ratio_of [7, 0, 7, 0] = Inr 70"
proof -
  have e: "edge_lengths [0, 7, 7, 0, 0] [0, 0, 0, 0, 0] = Inr [7, 0, 7, 0]"
    by (simp add: edge_lengths_def upt_0_4 point_distance_same_x point_distance_same_y
          del: point_distance.simps)
  show ?thesis
    using e aspect_ratio_never_divides_by_zero
              [of 0 "[7, 0, 7, 0]" "[0, 7, 7, 0, 0]" "[0, 0, 0, 0, 0]"]
    by (simp add: clamp_width_def)
qed

text \<open>
  C10. Within one call, every pin is the same shape (one radius, one height, one chamfer)
  under one rotation, the one computed from \<open>- normal\<close>, and so is every hole cutter; the
  sizes are functions of the distance from the first 2D centre to the boundary alone.
\<close>

theorem keys_share_dimensions:
  assumes "cap_result tm sh main_poly to_3d centers_2d = Inr data"
    and "build_keys tm normal data = Inr (pins, hole_cutters)"
  shows "\<exists>first later radius rotation.
           centers_2d = first # later
         \<and> boundary_distance sh first main_poly = Inr radius
         \<and> cap_max_radius data = radius
         \<and> align_vectors tm z_axis (vneg normal) = Inr rotation
         \<and> list_all2 (\<lambda>c p. place tm (create_chamfered_pin (pin_radius_of radius)
                (pin_height_of (pin_radius_of radius)) (0.2 * pin_radius_of radius) True True)
                rotation c = Inr p) (cap_centers data) pins
         \<and> list_all2 (\<lambda>c h. place tm (create_chamfered_pin (pin_radius_of radius + 0.2)
                (pin_height_of (pin_radius_of radius)) (0.2 * (pin_radius_of radius + 0.2))
                False True) rotation c = Inr h) (cap_centers data) hole_cutters"
proof -
  from assms(1) obtain first radius centers_3d where
    f: "py_nth centers_2d 0 = Inr first"
    and r: "boundary_distance sh first main_poly = Inr radius"
    and d: "data = \<lparr> cap_centers = centers_3d, cap_max_radius = radius \<rparr>"
    by (auto simp: cap_result_def and_then_eq_Inr)
  from f obtain later where c: "centers_2d = first # later"
    by (cases centers_2d) (auto simp: py_nth_def)
  from assms(2) obtain rotation where
    rot: "align_vectors tm z_axis (vneg normal) = Inr rotation"
    and mk: "make_keys tm (pin_radius_of radius) (pin_height_of (pin_radius_of radius))
               rotation centers_3d = Inr (pins, hole_cutters)"
    by (auto simp: build_keys_def and_then_eq_Inr Let_def d)
  from make_keys_shared [OF mk] show ?thesis
    using c r rot by (simp add: d sizes)
qed

theorem keys_share_dimensions_witness:
  "\<exists>first later radius rotation.
      [(12.5, 2.5), (37.5, 2.5)] = first # later
    \<and> boundary_distance flat_shapely first ((0, 0), (50, 5)) = Inr radius
    \<and> radius = 2.5 \<and> pin_radius_of radius = 2 \<and> pin_height_of (pin_radius_of radius) = 10
    \<and> align_vectors flat_trimesh z_axis (vneg (0, 0, 1)) = Inr rotation
    \<and> list_all2 (\<lambda>c p. place flat_trimesh (create_chamfered_pin 2 10 0.4 True True)
                rotation c = Inr p) [(12.5, 2.5, 0), (37.5, 2.5, 0)]
         [move_mesh (move_mesh (create_chamfered_pin 2 10 0.4 True True) (0, 0, 0)) (12.5, 2.5, 0),
          move_mesh (move_mesh (create_chamfered_pin 2 10 0.4 True True) (0, 0, 0)) (37.5, 2.5, 0)]"
proof -
  define data where "data = \<lparr> cap_centers = [(12.5, 2.5, 0), (37.5, 2.5, 0)], cap_max_radius = 2.5 \<rparr>"
  define pin where "pin = create_chamfered_pin 2 10 0.4 True True"
  define cutter where "cutter = create_chamfered_pin 2.2 10 0.44 False True"
  have h1: "cap_result flat_trimesh flat_shapely ((0, 0), (50, 5)) (0, 0, 0)
              [(12.5, 2.5), (37.5, 2.5)] = Inr data"
    by (simp add: data_def cap_result_def py_nth_def back_project_def flat_trimesh_def
          flat_shapely_def)
  have h2: "build_keys flat_trimesh (0, 0, 1) data
              = Inr ([move_mesh (move_mesh pin (0, 0, 0)) (12.5, 2.5, 0),
                      move_mesh (move_mesh pin (0, 0, 0)) (37.5, 2.5, 0)],
                     [move_mesh (move_mesh cutter (0, 0, 0)) (12.5, 2.5, 0),
                      move_mesh (move_mesh cutter (0, 0, 0)) (37.5, 2.5, 0)])"
    by (simp add: data_def pin_def cutter_def build_keys_def flat_trimesh_def z_axis_def
          pin_radius_of_def pin_height_of_def sizes Let_def)
  from keys_share_dimensions [OF h1 h2] show ?thesis
    by (auto simp: data_def pin_def pin_radius_of_def pin_height_of_def)
qed

end
